theory Spec2Isabelle
  imports Complex_Main
begin

section \<open>Values of the program\<close>

text \<open>
  The price of a product is a Python \<open>float\<close>. The program only ever compares a price
  with zero (and prints it), so a float is modelled by what decides such a comparison:
  a finite value (a real number; both zeros are \<open>Finite 0\<close>), one of the two
  infinities, or a NaN. The quantity is a Python \<open>int\<close>, unbounded.
\<close>

datatype pyfloat = Finite real | PlusInf | MinusInf | NaN

text \<open>\<open>x <= 0\<close> on a float: every comparison with a NaN is false.\<close>

fun float_le_zero :: "pyfloat \<Rightarrow> bool" where
  "float_le_zero (Finite r) = (r \<le> 0)"
| "float_le_zero PlusInf = False"
| "float_le_zero MinusInf = True"
| "float_le_zero NaN = False"

text \<open>\<open>x > 0\<close> on a float.\<close>

fun float_gt_zero :: "pyfloat \<Rightarrow> bool" where
  "float_gt_zero (Finite r) = (0 < r)"
| "float_gt_zero PlusInf = True"
| "float_gt_zero MinusInf = False"
| "float_gt_zero NaN = False"

text \<open>
  Every \<open>raise\<close> of the program raises a \<open>ValueError\<close>; the sites differ in their
  message. Formatting an \<open>int\<close> of more than 4300 digits into text raises a
  \<open>ValueError\<close> too (the interpreter's limit on integer string conversion). Reading or
  deleting a missing key of a dictionary raises a \<open>KeyError\<close>.
\<close>

datatype reason =
    IdEmpty               \<comment> \<open>"Product ID cannot be empty."\<close>
  | NameEmpty             \<comment> \<open>"Product name cannot be empty."\<close>
  | PriceNotPositive      \<comment> \<open>"Price must be positive."\<close>
  | QuantityNegative      \<comment> \<open>"Quantity cannot be negative."\<close>
  | CannotStockOut int int string
      \<comment> \<open>"Cannot stock out {abs(quantity_change)} items. Only {quantity} items available for '{name}'."\<close>
  | IntStrLimit           \<comment> \<open>"Exceeds the limit (4300 digits) for integer string conversion"\<close>

datatype exn = ValueError reason | KeyError string

text \<open>A statement or call either returns a value or raises.\<close>

datatype 'a outcome = Returned 'a | Raised exn

text \<open>
  The error kinds of the specification, and the kind it gives to each \<open>ValueError\<close> of
  the program (the program itself has the one exception class). The specification names
  no kind for the conversion limit.
\<close>

datatype error_kind = InvalidArgument | InvalidState | Unclassified

fun kind_of :: "reason \<Rightarrow> error_kind" where
  "kind_of IdEmpty = InvalidArgument"
| "kind_of NameEmpty = InvalidArgument"
| "kind_of PriceNotPositive = InvalidArgument"
| "kind_of QuantityNegative = InvalidArgument"
| "kind_of (CannotStockOut a q n) = InvalidState"
| "kind_of IntStrLimit = Unclassified"

text \<open>
  Formatting an \<open>int\<close> into an f-string: the conversion returns for at most
  \<open>max_str_digits\<close> decimal digits (the sign is not counted) and raises beyond. The
  text itself is not modelled. An f-string formats its fields from left to right; the
  first conversion that raises ends it.
\<close>

definition max_str_digits :: nat where
  "max_str_digits = 4300"

definition int_fits :: "int \<Rightarrow> bool" where
  "int_fits n = (\<bar>n\<bar> < 10 ^ max_str_digits)"

definition format_int :: "int \<Rightarrow> unit outcome" where
  "format_int n = (if int_fits n then Returned () else Raised (ValueError IntStrLimit))"

fun format_ints :: "int list \<Rightarrow> unit outcome" where
  "format_ints [] = Returned ()"
| "format_ints (n # ns) =
     (case format_int n of Raised e \<Rightarrow> Raised e | Returned u \<Rightarrow> format_ints ns)"

section \<open>Product\<close>

record Product =
  product_id :: string
  name :: string
  description :: string
  price :: pyfloat
  quantity :: int

text \<open>\<open>Product.__init__\<close>: the four checks in the source's order, then the five fields.\<close>

definition Product_init ::
  "string \<Rightarrow> string \<Rightarrow> string \<Rightarrow> pyfloat \<Rightarrow> int \<Rightarrow> Product outcome" where
  "Product_init pid nm descr pr qty =
     (if pid = [] then Raised (ValueError IdEmpty)
      else if nm = [] then Raised (ValueError NameEmpty)
      else if float_le_zero pr then Raised (ValueError PriceNotPositive)
      else if qty < 0 then Raised (ValueError QuantityNegative)
      else Returned \<lparr>product_id = pid, name = nm, description = descr,
                      price = pr, quantity = qty\<rparr>)"

text \<open>
  A method mutates its object and may raise after it has done so: it returns the outcome
  together with the object as the call leaves it. \<open>and_then\<close> runs the next statement
  unless the one before raised.
\<close>

definition and_then ::
  "unit outcome \<times> 's \<Rightarrow> ('s \<Rightarrow> unit outcome \<times> 's) \<Rightarrow> unit outcome \<times> 's" where
  "and_then r f = (case r of (Returned u, s) \<Rightarrow> f s | (Raised e, s) \<Rightarrow> (Raised e, s))"

text \<open>The three \<open>if ... is not None\<close> blocks of \<open>update_details\<close>.\<close>

definition assign_name :: "string option \<Rightarrow> Product \<Rightarrow> unit outcome \<times> Product" where
  "assign_name new_name self =
     (case new_name of
        None \<Rightarrow> (Returned (), self)
      | Some n \<Rightarrow> if n = [] then (Raised (ValueError NameEmpty), self)
                  else (Returned (), self\<lparr>name := n\<rparr>))"

definition assign_description :: "string option \<Rightarrow> Product \<Rightarrow> unit outcome \<times> Product" where
  "assign_description new_description self =
     (case new_description of
        None \<Rightarrow> (Returned (), self)
      | Some d \<Rightarrow> (Returned (), self\<lparr>description := d\<rparr>))"

definition assign_price :: "pyfloat option \<Rightarrow> Product \<Rightarrow> unit outcome \<times> Product" where
  "assign_price new_price self =
     (case new_price of
        None \<Rightarrow> (Returned (), self)
      | Some x \<Rightarrow> if float_le_zero x then (Raised (ValueError PriceNotPositive), self)
                  else (Returned (), self\<lparr>price := x\<rparr>))"

definition update_details ::
  "Product \<Rightarrow> string option \<Rightarrow> string option \<Rightarrow> pyfloat option \<Rightarrow> unit outcome \<times> Product" where
  "update_details self new_name new_description new_price =
     and_then (and_then (assign_name new_name self) (assign_description new_description))
       (assign_price new_price)"

text \<open>
  \<open>update_quantity\<close>: the message of the \<open>raise\<close> formats the size of the change and
  the quantity, so the conversion limit can raise in its place.
\<close>

definition update_quantity :: "Product \<Rightarrow> int \<Rightarrow> unit outcome \<times> Product" where
  "update_quantity self quantity_change =
     (let new_quantity = quantity self + quantity_change in
      if new_quantity < 0
      then (case format_ints [\<bar>quantity_change\<bar>, quantity self] of
              Raised e \<Rightarrow> (Raised e, self)
            | Returned u \<Rightarrow>
                (Raised (ValueError (CannotStockOut \<bar>quantity_change\<bar> (quantity self)
                   (name self))), self))
      else (Returned (), self\<lparr>quantity := new_quantity\<rparr>))"

section \<open>The dictionary of the store\<close>

text \<open>
  A Python \<open>dict\<close> keeps its keys in insertion order, and \<open>list_all_products\<close> prints in
  that order: the dictionary is an association list. Assigning to a key that is present
  replaces the value where it stands; assigning to a new key appends.
\<close>

type_synonym 'v pydict = "(string \<times> 'v) list"

definition dict_contains :: "'v pydict \<Rightarrow> string \<Rightarrow> bool" where
  "dict_contains d k = (map_of d k \<noteq> None)"

definition dict_get :: "'v pydict \<Rightarrow> string \<Rightarrow> 'v option" where
  "dict_get d k = map_of d k"

definition dict_getitem :: "'v pydict \<Rightarrow> string \<Rightarrow> 'v outcome" where
  "dict_getitem d k = (case map_of d k of None \<Rightarrow> Raised (KeyError k) | Some v \<Rightarrow> Returned v)"

fun dict_setitem :: "'v pydict \<Rightarrow> string \<Rightarrow> 'v \<Rightarrow> 'v pydict" where
  "dict_setitem [] k v = [(k, v)]"
| "dict_setitem ((k', v') # d) k v =
     (if k' = k then (k, v) # d else (k', v') # dict_setitem d k v)"

definition dict_delitem :: "'v pydict \<Rightarrow> string \<Rightarrow> 'v pydict outcome" where
  "dict_delitem d k =
     (if dict_contains d k then Returned (filter (\<lambda>e. fst e \<noteq> k) d)
      else Raised (KeyError k))"

section \<open>InventoryManager\<close>

text \<open>
  The manager's state is its dictionary \<open>_products\<close>. Each method returns its outcome,
  the dictionary as the call leaves it, and the lines it printed. A printed line is kept
  as the values the source formats into it; a line that formats an \<open>int\<close> is printed
  only when the conversion of each of its integers returns (\<open>format_ints\<close>).

  A stored product is an object that the methods mutate in place. At most one object is
  stored under a key, so the dictionary holds the object's state, and a mutation of the
  object found under a key is written back under that key.
\<close>

datatype printed =
    ErrAlreadyExists string             \<comment> \<open>"Error: Product with ID '{id}' already exists."\<close>
  | AddedOk string                      \<comment> \<open>"Product '{name}' added successfully."\<close>
  | ErrNotFound string                  \<comment> \<open>"Error: Product with ID '{id}' not found."\<close>
  | RemovedOk string string             \<comment> \<open>"Product '{name}' (ID: {id}) removed successfully."\<close>
  | DetailsUpdatedOk string             \<comment> \<open>"Product ID '{id}' details updated successfully."\<close>
  | ErrUpdatingProduct exn              \<comment> \<open>"Error updating product: {e}"\<close>
  | StockMoved int string string bool int
      \<comment> \<open>"{abs(change)} units of '{name}' (ID: {id}) {action}. New quantity: {quantity}."; the flag is True for "stocked in"\<close>
  | ErrUpdatingStock exn                \<comment> \<open>"Error updating stock: {e}"\<close>
  | InventoryEmpty                      \<comment> \<open>"Inventory is currently empty."\<close>
  | ListHeader                          \<comment> \<open>"--- Current Inventory ---"\<close>
  | ListEntry string string pyfloat int \<comment> \<open>"ID: {id}, Name: {name}, Price: ${price:.2f}, Quantity: {quantity}"\<close>
  | ListFooter                          \<comment> \<open>"-------------------------"\<close>

type_synonym inventory = "Product pydict"

type_synonym 'a call = "'a outcome \<times> inventory \<times> printed list"

definition add_product :: "inventory \<Rightarrow> Product \<Rightarrow> bool call" where
  "add_product products product =
     (if dict_contains products (product_id product)
      then (Returned False, products, [ErrAlreadyExists (product_id product)])
      else (Returned True, dict_setitem products (product_id product) product,
            [AddedOk (name product)]))"

definition remove_product :: "inventory \<Rightarrow> string \<Rightarrow> bool call" where
  "remove_product products pid =
     (if \<not> dict_contains products pid
      then (Returned False, products, [ErrNotFound pid])
      else (case dict_getitem products pid of
              Raised e \<Rightarrow> (Raised e, products, [])
            | Returned removed \<Rightarrow>
                (case dict_delitem products pid of
                   Raised e \<Rightarrow> (Raised e, products, [])
                 | Returned products' \<Rightarrow>
                     (Returned True, products', [RemovedOk (name removed) pid]))))"

definition get_product :: "inventory \<Rightarrow> string \<Rightarrow> Product option call" where
  "get_product products pid =
     (case dict_get products pid of
        None \<Rightarrow> (Returned None, products, [ErrNotFound pid])
      | Some product \<Rightarrow> (Returned (Some product), products, []))"

text \<open>
  \<open>try: ... except ValueError as e: ...\<close> around a call on the product: a \<open>ValueError\<close>
  is caught and the method returns False; any other exception leaves the method.
\<close>

definition update_product_details ::
  "inventory \<Rightarrow> string \<Rightarrow> string option \<Rightarrow> string option \<Rightarrow> pyfloat option \<Rightarrow> bool call" where
  "update_product_details products pid new_name new_description new_price =
     (case get_product products pid of
        (Raised e, products1, out1) \<Rightarrow> (Raised e, products1, out1)
      | (Returned None, products1, out1) \<Rightarrow> (Returned False, products1, out1)
      | (Returned (Some product), products1, out1) \<Rightarrow>
          (case update_details product new_name new_description new_price of
             (Returned u, product') \<Rightarrow>
               (Returned True, dict_setitem products1 pid product',
                out1 @ [DetailsUpdatedOk pid])
           | (Raised (ValueError m), product') \<Rightarrow>
               (Returned False, dict_setitem products1 pid product',
                out1 @ [ErrUpdatingProduct (ValueError m)])
           | (Raised (KeyError k), product') \<Rightarrow>
               (Raised (KeyError k), dict_setitem products1 pid product', out1)))"

text \<open>
  The body of the \<open>try\<close> of \<open>update_stock\<close>: the call on the product, then the line
  that reports the change, which formats the size of the change and the new quantity,
  then \<open>return True\<close>. The product is returned as the body leaves it.
\<close>

definition update_stock_try ::
  "Product \<Rightarrow> string \<Rightarrow> int \<Rightarrow> bool outcome \<times> Product \<times> printed list" where
  "update_stock_try product pid quantity_change =
     (case update_quantity product quantity_change of
        (Raised e, product') \<Rightarrow> (Raised e, product', [])
      | (Returned u, product') \<Rightarrow>
          (case format_ints [\<bar>quantity_change\<bar>, quantity product'] of
             Raised e \<Rightarrow> (Raised e, product', [])
           | Returned u' \<Rightarrow>
               (Returned True, product',
                [StockMoved \<bar>quantity_change\<bar> (name product') pid
                   (0 < quantity_change) (quantity product')])))"

definition update_stock :: "inventory \<Rightarrow> string \<Rightarrow> int \<Rightarrow> bool call" where
  "update_stock products pid quantity_change =
     (case get_product products pid of
        (Raised e, products1, out1) \<Rightarrow> (Raised e, products1, out1)
      | (Returned None, products1, out1) \<Rightarrow> (Returned False, products1, out1)
      | (Returned (Some product), products1, out1) \<Rightarrow>
          (case update_stock_try product pid quantity_change of
             (Returned b, product', out2) \<Rightarrow>
               (Returned b, dict_setitem products1 pid product', out1 @ out2)
           | (Raised (ValueError m), product', out2) \<Rightarrow>
               (Returned False, dict_setitem products1 pid product',
                out1 @ out2 @ [ErrUpdatingStock (ValueError m)])
           | (Raised (KeyError k), product', out2) \<Rightarrow>
               (Raised (KeyError k), dict_setitem products1 pid product', out1 @ out2)))"

text \<open>
  The loop of \<open>list_all_products\<close>: one line for each entry, in the dictionary's order.
  The line formats the quantity; when that raises, the loop ends with the lines printed
  so far. Nothing catches the exception.
\<close>

fun print_entries :: "inventory \<Rightarrow> unit outcome \<times> printed list" where
  "print_entries [] = (Returned (), [])"
| "print_entries ((pid, product) # rest) =
     (case format_ints [quantity product] of
        Raised e \<Rightarrow> (Raised e, [])
      | Returned u \<Rightarrow>
          (case print_entries rest of
             (r, out) \<Rightarrow>
               (r, ListEntry (product_id product) (name product) (price product)
                     (quantity product) # out)))"

definition list_all_products :: "inventory \<Rightarrow> unit call" where
  "list_all_products products =
     (if products = [] then (Returned (), products, [InventoryEmpty])
      else (case print_entries products of
              (Raised e, out) \<Rightarrow> (Raised e, products, [ListHeader] @ out)
            | (Returned u, out) \<Rightarrow> (Returned (), products, [ListHeader] @ out @ [ListFooter])))"

section \<open>Invariants and reachable stores\<close>

text \<open>
  The invariant of the specification: identifier and name non-empty, price greater than
  zero, quantity not negative.
\<close>

definition product_inv :: "Product \<Rightarrow> bool" where
  "product_inv p =
     (product_id p \<noteq> [] \<and> name p \<noteq> [] \<and> float_gt_zero (price p) \<and> 0 \<le> quantity p)"

text \<open>
  What the checks of the source establish: they test \<open>price <= 0\<close>, so the price of a
  product is known not to be \<open><= 0\<close>.
\<close>

definition product_ok :: "Product \<Rightarrow> bool" where
  "product_ok p =
     (product_id p \<noteq> [] \<and> name p \<noteq> [] \<and> \<not> float_le_zero (price p) \<and> 0 \<le> quantity p)"

text \<open>
  The products a caller can hold: built by a constructor call that returned, and
  afterwards changed only by the two mutating methods (whether they returned or raised).
  A product that was stored, changed through the manager, removed and added again is
  among them.
\<close>

inductive constructed :: "Product \<Rightarrow> bool" where
  fresh: "Product_init pid nm descr pr qty = Returned p \<Longrightarrow> constructed p"
| after_details: "constructed p \<Longrightarrow> constructed (snd (update_details p n d x))"
| after_quantity: "constructed p \<Longrightarrow> constructed (snd (update_quantity p c))"

text \<open>
  The stores the program can be in: the empty dictionary of \<open>__new__\<close>, and the
  dictionary after any call of a manager method.
\<close>

inductive reachable :: "inventory \<Rightarrow> bool" where
  initial: "reachable []"
| added: "reachable s \<Longrightarrow> constructed p \<Longrightarrow> reachable (fst (snd (add_product s p)))"
| removed: "reachable s \<Longrightarrow> reachable (fst (snd (remove_product s pid)))"
| got: "reachable s \<Longrightarrow> reachable (fst (snd (get_product s pid)))"
| details_updated:
    "reachable s \<Longrightarrow> reachable (fst (snd (update_product_details s pid n d x)))"
| stock_updated: "reachable s \<Longrightarrow> reachable (fst (snd (update_stock s pid c)))"
| listed: "reachable s \<Longrightarrow> reachable (fst (snd (list_all_products s)))"

definition store_ok :: "inventory \<Rightarrow> bool" where
  "store_ok s = list_all (\<lambda>(k, p). product_ok p \<and> product_id p = k) s"

section \<open>The products of the entry sequence\<close>

text \<open>The two products that \<open>__main__\<close> constructs and adds before the menu starts.\<close>

definition prod1 :: Product where
  "prod1 = \<lparr>product_id = ''LPT001'', name = ''Laptop X1'',
            description = ''High-performance laptop'', price = Finite 1200.99, quantity = 10\<rparr>"

definition prod2 :: Product where
  "prod2 = \<lparr>product_id = ''MSE002'', name = ''Wireless Mouse'',
            description = ''Ergonomic wireless mouse'', price = Finite 25.50, quantity = 50\<rparr>"

definition prepopulated :: inventory where
  "prepopulated = [(''LPT001'', prod1), (''MSE002'', prod2)]"

section \<open>Facts about the dictionary\<close>

lemma map_of_setitem: "map_of (dict_setitem d k v) = (map_of d)(k \<mapsto> v)"
  by (induction d) auto

lemma set_setitem: "set (dict_setitem d k v) \<subseteq> insert (k, v) (set d)"
  by (induction d) (auto split: if_splits)

lemma setitem_same: "map_of d k = Some v \<Longrightarrow> dict_setitem d k v = d"
  by (induction d) (auto split: if_splits)

lemma map_of_filter_key: "map_of (filter (\<lambda>e. fst e \<noteq> k) d) = (map_of d)(k := None)"
  by (induction d) auto

section \<open>Facts about the conversion limit\<close>

lemma limit_pos: "(0::int) < 10 ^ max_str_digits"
  by simp

lemma int_fits_small: "\<bar>n\<bar> < 100000 \<Longrightarrow> int_fits n"
proof -
  assume small: "\<bar>n\<bar> < 100000"
  have "(10::int) ^ 5 \<le> 10 ^ max_str_digits"
    by (rule power_increasing) (simp_all add: max_str_digits_def)
  with small show ?thesis by (simp add: int_fits_def)
qed

lemma int_fits_abs: "int_fits \<bar>n\<bar> = int_fits n"
  by (simp add: int_fits_def)

lemma int_fits_minus: "int_fits (- n) = int_fits n"
  by (simp add: int_fits_def)

lemma int_fits_between: "int_fits q \<Longrightarrow> 0 \<le> m \<Longrightarrow> m \<le> q \<Longrightarrow> int_fits m"
  by (simp add: int_fits_def)

lemma not_int_fits_limit: "\<not> int_fits (10 ^ max_str_digits)"
  by (simp add: int_fits_def)

lemma not_int_fits_beyond: "0 \<le> n \<Longrightarrow> \<not> int_fits (n + 10 ^ max_str_digits)"
  using limit_pos by (simp add: int_fits_def)

lemma format_ints_Returned: "format_ints ns = Returned () \<longleftrightarrow> list_all int_fits ns"
  by (induction ns) (auto simp: format_int_def)

lemma format_ints_Raised: "format_ints ns = Raised e \<Longrightarrow> e = ValueError IntStrLimit"
  by (induction ns) (auto simp: format_int_def split: if_splits)

lemma format_ints_cases:
  "format_ints ns = (if list_all int_fits ns then Returned () else Raised (ValueError IntStrLimit))"
proof (cases "format_ints ns")
  case (Returned u)
  then show ?thesis using format_ints_Returned [of ns] by simp
next
  case (Raised e)
  then show ?thesis using format_ints_Raised [of ns e] format_ints_Returned [of ns] by auto
qed

section \<open>What the checks of the source establish\<close>

lemma Product_init_Returned:
  "Product_init pid nm descr pr qty = Returned p \<longleftrightarrow>
     pid \<noteq> [] \<and> nm \<noteq> [] \<and> \<not> float_le_zero pr \<and> 0 \<le> qty \<and>
     p = \<lparr>product_id = pid, name = nm, description = descr, price = pr, quantity = qty\<rparr>"
  by (auto simp: Product_init_def)

lemma update_details_ok: "product_ok p \<Longrightarrow> product_ok (snd (update_details p n d x))"
  by (auto simp: update_details_def and_then_def assign_name_def assign_description_def
      assign_price_def product_ok_def split: option.splits)

lemma update_quantity_ok: "product_ok p \<Longrightarrow> product_ok (snd (update_quantity p c))"
  by (auto simp: update_quantity_def product_ok_def Let_def split: outcome.splits)

lemma update_details_id: "product_id (snd (update_details p n d x)) = product_id p"
  by (auto simp: update_details_def and_then_def assign_name_def assign_description_def
      assign_price_def split: option.splits)

lemma update_quantity_id: "product_id (snd (update_quantity p c)) = product_id p"
  by (auto simp: update_quantity_def Let_def split: outcome.splits)

lemma update_stock_try_product:
  "fst (snd (update_stock_try p pid c)) = snd (update_quantity p c)"
  by (simp add: update_stock_try_def split: prod.splits outcome.splits)

lemma constructed_ok: "constructed p \<Longrightarrow> product_ok p"
proof (induction rule: constructed.induct)
  case (fresh pid nm descr pr qty p)
  then show ?case by (auto simp: Product_init_Returned product_ok_def)
next
  case (after_details p n d x)
  then show ?case by (simp add: update_details_ok)
next
  case (after_quantity p c)
  then show ?case by (simp add: update_quantity_ok)
qed

lemma store_okD: "store_ok s \<Longrightarrow> map_of s k = Some p \<Longrightarrow> product_ok p \<and> product_id p = k"
  by (auto simp: store_ok_def list_all_iff dest!: map_of_SomeD)

lemma store_ok_setitem:
  "store_ok s \<Longrightarrow> product_ok p \<Longrightarrow> product_id p = k \<Longrightarrow> store_ok (dict_setitem s k p)"
  using set_setitem [of s k p] by (auto simp: store_ok_def list_all_iff)

lemma store_ok_filter: "store_ok s \<Longrightarrow> store_ok (filter P s)"
  by (auto simp: store_ok_def list_all_iff)

lemma add_product_ok: "store_ok s \<Longrightarrow> product_ok p \<Longrightarrow> store_ok (fst (snd (add_product s p)))"
  by (simp add: add_product_def store_ok_setitem)

lemma remove_product_ok: "store_ok s \<Longrightarrow> store_ok (fst (snd (remove_product s pid)))"
  by (auto simp: remove_product_def dict_getitem_def dict_delitem_def store_ok_filter
      split: option.splits)

lemma get_product_same: "fst (snd (get_product s pid)) = s"
  by (simp add: get_product_def split: option.splits)

lemma update_product_details_ok:
  "store_ok s \<Longrightarrow> store_ok (fst (snd (update_product_details s pid n d x)))"
proof (cases "map_of s pid")
  case None
  assume "store_ok s"
  with None show ?thesis by (simp add: update_product_details_def get_product_def dict_get_def)
next
  case (Some p)
  assume ok: "store_ok s"
  obtain r p' where u: "update_details p n d x = (r, p')" by (cases "update_details p n d x")
  from store_okD [OF ok Some] update_details_ok [of p n d x] update_details_id [of p n d x] u
  have "product_ok p'" "product_id p' = pid" by auto
  with ok have "store_ok (dict_setitem s pid p')" by (simp add: store_ok_setitem)
  with Some u show ?thesis
    by (simp add: update_product_details_def get_product_def dict_get_def
        split: outcome.splits exn.splits)
qed

lemma update_stock_ok: "store_ok s \<Longrightarrow> store_ok (fst (snd (update_stock s pid c)))"
proof (cases "map_of s pid")
  case None
  assume "store_ok s"
  with None show ?thesis by (simp add: update_stock_def get_product_def dict_get_def)
next
  case (Some p)
  assume ok: "store_ok s"
  obtain r p' out where u: "update_stock_try p pid c = (r, p', out)"
    by (cases "update_stock_try p pid c")
  then have p': "p' = snd (update_quantity p c)"
    using update_stock_try_product [of p pid c] by simp
  from store_okD [OF ok Some] update_quantity_ok [of p c] update_quantity_id [of p c] p'
  have "product_ok p'" "product_id p' = pid" by auto
  with ok have "store_ok (dict_setitem s pid p')" by (simp add: store_ok_setitem)
  with Some u show ?thesis
    by (simp add: update_stock_def get_product_def dict_get_def
        split: outcome.splits exn.splits)
qed

lemma list_all_products_same: "fst (snd (list_all_products s)) = s"
  by (simp add: list_all_products_def split: prod.splits outcome.splits)

lemma print_entries_fits:
  "list_all (\<lambda>e. int_fits (quantity (snd e))) s \<Longrightarrow>
     print_entries s
       = (Returned (),
          map (\<lambda>e. ListEntry (product_id (snd e)) (name (snd e)) (price (snd e))
                     (quantity (snd e))) s)"
  by (induction s) (auto simp: format_int_def)

text \<open>
  In every reachable store each product passes the checks of the source and is stored
  under its own identifier.
\<close>

lemma reachable_ok: "reachable s \<Longrightarrow> store_ok s"
proof (induction rule: reachable.induct)
  case initial
  show ?case by (simp add: store_ok_def)
next
  case (added s p)
  then show ?case by (simp add: add_product_ok constructed_ok)
next
  case (removed s pid)
  then show ?case by (simp add: remove_product_ok)
next
  case (got s pid)
  then show ?case by (simp add: get_product_same)
next
  case (details_updated s pid n d x)
  then show ?case by (simp add: update_product_details_ok)
next
  case (stock_updated s pid c)
  then show ?case by (simp add: update_stock_ok)
next
  case (listed s)
  then show ?case by (simp add: list_all_products_same)
qed

text \<open>The store of the entry sequence is reachable: two constructor calls, two adds.\<close>

lemma constructed_prod1: "constructed prod1"
  by (rule constructed.fresh
      [of "''LPT001''" "''Laptop X1''" "''High-performance laptop''" "Finite 1200.99" 10])
     (simp add: Product_init_def prod1_def)

lemma constructed_prod2: "constructed prod2"
  by (rule constructed.fresh
      [of "''MSE002''" "''Wireless Mouse''" "''Ergonomic wireless mouse''" "Finite 25.50" 50])
     (simp add: Product_init_def prod2_def)

lemma reachable_prepopulated: "reachable prepopulated"
proof -
  have "reachable (fst (snd (add_product [] prod1)))"
    by (rule reachable.added [OF reachable.initial constructed_prod1])
  then have "reachable (fst (snd (add_product (fst (snd (add_product [] prod1))) prod2)))"
    by (rule reachable.added [OF _ constructed_prod2])
  then show ?thesis
    by (simp add: add_product_def dict_contains_def prod1_def prod2_def prepopulated_def)
qed

section \<open>Which exceptions the product methods raise\<close>

lemma update_details_raises:
  "update_details q n d x = (Raised e, q') \<Longrightarrow> \<exists>m. e = ValueError m"
  by (auto simp: update_details_def and_then_def assign_name_def assign_description_def
      assign_price_def split: option.splits if_splits)

lemma update_quantity_raises:
  "update_quantity q c = (Raised e, q') \<Longrightarrow> \<exists>m. e = ValueError m"
  by (auto simp: update_quantity_def Let_def format_ints_cases split: if_splits)

lemma update_stock_try_raises:
  "update_stock_try q pid c = (Raised e, q', out) \<Longrightarrow> \<exists>m. e = ValueError m"
  by (auto simp: update_stock_try_def format_ints_cases dest: update_quantity_raises
      split: prod.splits outcome.splits if_splits)

lemma update_product_details_returns:
  "\<exists>b. fst (update_product_details s pid n d x) = Returned b"
proof (cases "dict_get s pid")
  case None
  then show ?thesis by (auto simp: update_product_details_def get_product_def)
next
  case (Some q)
  obtain r q' where u: "update_details q n d x = (r, q')" by (cases "update_details q n d x")
  show ?thesis
  proof (cases r)
    case (Returned u')
    with Some u show ?thesis by (auto simp: update_product_details_def get_product_def)
  next
    case (Raised e)
    with u obtain m where "e = ValueError m" using update_details_raises by blast
    with Some u Raised show ?thesis by (auto simp: update_product_details_def get_product_def)
  qed
qed

lemma update_stock_returns: "\<exists>b. fst (update_stock s pid c) = Returned b"
proof (cases "dict_get s pid")
  case None
  then show ?thesis by (auto simp: update_stock_def get_product_def)
next
  case (Some q)
  obtain r q' out where u: "update_stock_try q pid c = (r, q', out)"
    by (cases "update_stock_try q pid c")
  show ?thesis
  proof (cases r)
    case (Returned b)
    with Some u show ?thesis by (auto simp: update_stock_def get_product_def)
  next
    case (Raised e)
    with u obtain m where "e = ValueError m" using update_stock_try_raises by blast
    with Some u Raised show ?thesis by (auto simp: update_stock_def get_product_def)
  qed
qed

text \<open>
  Five of the six manager methods return for every dictionary and every argument: the
  guarded dictionary accesses of \<open>remove_product\<close> cannot raise, and what the product
  methods and the report of \<open>update_stock\<close> raise is the \<open>ValueError\<close> that the updates
  catch.
\<close>

lemma five_methods_return:
  "(\<exists>b. fst (add_product s p) = Returned b)
   \<and> (\<exists>b. fst (remove_product s pid) = Returned b)
   \<and> (\<exists>r. fst (get_product s pid) = Returned r)
   \<and> (\<exists>b. fst (update_product_details s pid n d x) = Returned b)
   \<and> (\<exists>b. fst (update_stock s pid delta) = Returned b)"
proof (intro conjI)
  show "\<exists>b. fst (add_product s p) = Returned b"
    by (auto simp: add_product_def)
  show "\<exists>b. fst (remove_product s pid) = Returned b"
    by (auto simp: remove_product_def dict_contains_def dict_getitem_def dict_delitem_def)
  show "\<exists>r. fst (get_product s pid) = Returned r"
    by (simp add: get_product_def split: option.splits)
  show "\<exists>b. fst (update_product_details s pid n d x) = Returned b"
    by (rule update_product_details_returns)
  show "\<exists>b. fst (update_stock s pid delta) = Returned b"
    by (rule update_stock_returns)
qed

section \<open>What holds of quantity changes\<close>

text \<open>
  \<open>update_quantity\<close> raises exactly when the sum is negative, and leaves the product as
  it was; the error is the insufficient-stock one when the two integers of its message
  fit the conversion limit. Otherwise the quantity becomes the sum.
\<close>

lemma update_quantity_negative:
  "quantity p + delta < 0 \<Longrightarrow>
     update_quantity p delta
       = (Raised (ValueError (if int_fits delta \<and> int_fits (quantity p)
                              then CannotStockOut \<bar>delta\<bar> (quantity p) (name p)
                              else IntStrLimit)), p)"
  by (simp add: update_quantity_def format_ints_cases int_fits_abs)

lemma update_quantity_commits:
  "\<not> quantity p + delta < 0 \<Longrightarrow>
     update_quantity p delta = (Returned (), p\<lparr>quantity := quantity p + delta\<rparr>)"
  by (simp add: update_quantity_def)

text \<open>
  A stock-in on a reachable store always commits the sum; it returns True when the
  change and the new quantity fit the conversion limit.
\<close>

lemma update_stock_in_commits:
  assumes "reachable s" and "dict_get s pid = Some p" and "0 < delta"
  shows "dict_get (fst (snd (update_stock s pid delta))) pid
           = Some (p\<lparr>quantity := quantity p + delta\<rparr>)"
    and "fst (update_stock s pid delta)
           = Returned (int_fits delta \<and> int_fits (quantity p + delta))"
proof -
  from assms have "product_ok p"
    using store_okD [OF reachable_ok, of s pid p] by (simp add: dict_get_def)
  then have "0 \<le> quantity p" by (simp add: product_ok_def)
  with assms have u: "update_quantity p delta = (Returned (), p\<lparr>quantity := quantity p + delta\<rparr>)"
    by (simp add: update_quantity_def)
  with assms show "dict_get (fst (snd (update_stock s pid delta))) pid
           = Some (p\<lparr>quantity := quantity p + delta\<rparr>)"
    by (simp add: update_stock_def update_stock_try_def get_product_def dict_get_def
        map_of_setitem format_ints_cases)
  from assms u show "fst (update_stock s pid delta)
           = Returned (int_fits delta \<and> int_fits (quantity p + delta))"
    by (simp add: update_stock_def update_stock_try_def get_product_def format_ints_cases
        int_fits_abs)
qed

section \<open>The claims\<close>

subsection \<open>C1: the invariant of stored products\<close>

text \<open>
  C1 says that in every reachable store each product has a non-empty identifier, a
  non-empty name, a price greater than zero and a quantity that is not negative. The
  constructor tests \<open>price <= 0\<close>, which is false for a NaN: a product with a NaN price
  is constructed and added, and the store that holds it is reachable, although its price
  is not greater than zero. (Lemma \<open>reachable_ok\<close> is what does hold: every stored
  product passes the source's own checks.)
\<close>

theorem nan_price_is_stored:
  "Product_init ''NAN001'' ''Widget'' [] NaN 0
     = Returned \<lparr>product_id = ''NAN001'', name = ''Widget'', description = [],
                 price = NaN, quantity = 0\<rparr>
   \<and> add_product [] \<lparr>product_id = ''NAN001'', name = ''Widget'', description = [],
                      price = NaN, quantity = 0\<rparr>
     = (Returned True,
        [(''NAN001'', \<lparr>product_id = ''NAN001'', name = ''Widget'', description = [],
                        price = NaN, quantity = 0\<rparr>)],
        [AddedOk ''Widget''])
   \<and> reachable [(''NAN001'', \<lparr>product_id = ''NAN001'', name = ''Widget'', description = [],
                                 price = NaN, quantity = 0\<rparr>)]
   \<and> \<not> product_inv \<lparr>product_id = ''NAN001'', name = ''Widget'', description = [],
                       price = NaN, quantity = 0\<rparr>"
proof -
  let ?p = "\<lparr>product_id = ''NAN001'', name = ''Widget'', description = [],
             price = NaN, quantity = 0\<rparr>"
  have init: "Product_init ''NAN001'' ''Widget'' [] NaN 0 = Returned ?p"
    by (simp add: Product_init_def)
  have add: "add_product [] ?p = (Returned True, [(''NAN001'', ?p)], [AddedOk ''Widget''])"
    by (simp add: add_product_def dict_contains_def)
  have "reachable (fst (snd (add_product [] ?p)))"
    by (rule reachable.added [OF reachable.initial constructed.fresh [OF init]])
  then have reach: "reachable [(''NAN001'', ?p)]"
    by (simp add: add)
  have bad: "\<not> product_inv ?p"
    by (simp add: product_inv_def)
  from init add reach bad show ?thesis by simp
qed

subsection \<open>C2: the constructor\<close>

text \<open>
  C2 says that the constructor succeeds exactly when the identifier and the name are
  non-empty, the price is greater than zero and the quantity is not negative. With a NaN
  price the constructor returns a product, and NaN is not greater than zero. (Lemma
  \<open>Product_init_Returned\<close> is what does hold: success exactly when the price is not
  \<open><= 0\<close>, with the five fields equal to the inputs.)
\<close>

theorem Product_init_accepts_nan:
  "Product_init ''LPT001'' ''Laptop X1'' ''High-performance laptop'' NaN 10
     = Returned \<lparr>product_id = ''LPT001'', name = ''Laptop X1'',
                 description = ''High-performance laptop'', price = NaN, quantity = 10\<rparr>
   \<and> \<not> float_gt_zero NaN"
  by (simp add: Product_init_def)

subsection \<open>C3: quantity changes\<close>

text \<open>
  C3 says that \<open>update_stock\<close> with a positive change always succeeds, with no upper
  bound. The line that reports the change is inside the \<open>try\<close>, after the quantity has
  been committed: for a change of 4301 digits its formatting raises the \<open>ValueError\<close>
  of the conversion limit, the \<open>except\<close> catches it, and the call returns False with the
  new quantity stored. (Lemmas \<open>update_quantity_negative\<close>, \<open>update_quantity_commits\<close>
  and \<open>update_stock_in_commits\<close> are what does hold.)
\<close>

theorem update_stock_huge_stock_in:
  "reachable prepopulated
   \<and> dict_get prepopulated ''LPT001'' = Some prod1
   \<and> (0::int) < 10 ^ max_str_digits
   \<and> update_stock prepopulated ''LPT001'' (10 ^ max_str_digits)
       = (Returned False,
          [(''LPT001'', prod1\<lparr>quantity := 10 + 10 ^ max_str_digits\<rparr>), (''MSE002'', prod2)],
          [ErrUpdatingStock (ValueError IntStrLimit)])"
proof -
  have q: "quantity prod1 = 10" by (simp add: prod1_def)
  have "\<not> quantity prod1 + 10 ^ max_str_digits < 0"
    unfolding q using limit_pos by linarith
  then have u: "update_quantity prod1 (10 ^ max_str_digits)
             = (Returned (), prod1\<lparr>quantity := 10 + 10 ^ max_str_digits\<rparr>)"
    using update_quantity_commits [of prod1 "10 ^ max_str_digits"] by (simp add: q)
  have t: "update_stock_try prod1 ''LPT001'' (10 ^ max_str_digits)
             = (Raised (ValueError IntStrLimit),
                prod1\<lparr>quantity := 10 + 10 ^ max_str_digits\<rparr>, [])"
    by (simp add: update_stock_try_def u format_ints_cases not_int_fits_limit)
  have g: "dict_get prepopulated ''LPT001'' = Some prod1"
    by (simp add: prepopulated_def dict_get_def)
  have "update_stock prepopulated ''LPT001'' (10 ^ max_str_digits)
       = (Returned False,
          dict_setitem prepopulated ''LPT001'' (prod1\<lparr>quantity := 10 + 10 ^ max_str_digits\<rparr>),
          [ErrUpdatingStock (ValueError IntStrLimit)])"
    by (simp add: update_stock_def get_product_def g t)
  then have "update_stock prepopulated ''LPT001'' (10 ^ max_str_digits)
       = (Returned False,
          [(''LPT001'', prod1\<lparr>quantity := 10 + 10 ^ max_str_digits\<rparr>), (''MSE002'', prod2)],
          [ErrUpdatingStock (ValueError IntStrLimit)])"
    by (simp add: prepopulated_def)
  with reachable_prepopulated g limit_pos show ?thesis by simp
qed

subsection \<open>C4: adding under an identifier that is present\<close>

text \<open>
  C4: when the identifier of the product is already a key, \<open>add_product\<close> returns False
  and the dictionary is the one it was given, so the stored product keeps all its
  fields. After an add that succeeded, a second add of any product with the same
  identifier returns False, leaves the dictionary as it was, and the first product is
  still what is stored.
\<close>

theorem add_product_existing_id:
  "(dict_contains s (product_id p) \<longrightarrow>
      add_product s p = (Returned False, s, [ErrAlreadyExists (product_id p)]))
   \<and> (\<not> dict_contains s (product_id p) \<and> product_id q = product_id p \<longrightarrow>
      fst (add_product s p) = Returned True
      \<and> add_product (fst (snd (add_product s p))) q
          = (Returned False, fst (snd (add_product s p)), [ErrAlreadyExists (product_id q)])
      \<and> dict_get (fst (snd (add_product s p))) (product_id p) = Some p)"
  by (simp add: add_product_def dict_contains_def dict_get_def map_of_setitem)

theorem add_product_existing_id_witness:
  "add_product prepopulated (prod1\<lparr>name := ''Other'', quantity := 3\<rparr>)
     = (Returned False, prepopulated, [ErrAlreadyExists ''LPT001''])
   \<and> fst (add_product [] prod1) = Returned True
   \<and> add_product (fst (snd (add_product [] prod1))) (prod1\<lparr>name := ''Other''\<rparr>)
     = (Returned False, fst (snd (add_product [] prod1)), [ErrAlreadyExists ''LPT001''])
   \<and> dict_get (fst (snd (add_product [] prod1))) ''LPT001'' = Some prod1"
  using add_product_existing_id
      [of prepopulated "prod1\<lparr>name := ''Other'', quantity := 3\<rparr>"]
    add_product_existing_id [of "[]" prod1 "prod1\<lparr>name := ''Other''\<rparr>"]
  by (simp add: prepopulated_def prod1_def dict_contains_def)

subsection \<open>C5: removing\<close>

text \<open>
  C5: \<open>remove_product\<close> on an absent identifier returns False and the dictionary is
  exactly the one it was given. On a present identifier it returns True, the identifier
  is no longer a key, every other key keeps its product, and \<open>get_product\<close> on the
  result returns None.
\<close>

theorem remove_product_absent_present:
  "(\<not> dict_contains s pid \<longrightarrow> remove_product s pid = (Returned False, s, [ErrNotFound pid]))
   \<and> (dict_contains s pid \<longrightarrow>
        fst (remove_product s pid) = Returned True
        \<and> \<not> dict_contains (fst (snd (remove_product s pid))) pid
        \<and> (\<forall>k. k \<noteq> pid \<longrightarrow> dict_get (fst (snd (remove_product s pid))) k = dict_get s k)
        \<and> get_product (fst (snd (remove_product s pid))) pid
            = (Returned None, fst (snd (remove_product s pid)), [ErrNotFound pid]))"
  by (auto simp: remove_product_def dict_contains_def dict_getitem_def dict_delitem_def
      dict_get_def get_product_def map_of_filter_key)

theorem remove_product_absent_present_witness:
  "remove_product prepopulated ''XXX999'' = (Returned False, prepopulated, [ErrNotFound ''XXX999''])
   \<and> remove_product prepopulated ''LPT001''
       = (Returned True, [(''MSE002'', prod2)], [RemovedOk ''Laptop X1'' ''LPT001''])
   \<and> get_product [(''MSE002'', prod2)] ''LPT001''
       = (Returned None, [(''MSE002'', prod2)], [ErrNotFound ''LPT001''])"
  using remove_product_absent_present [of prepopulated "''XXX999''"]
    remove_product_absent_present [of prepopulated "''LPT001''"]
  by (simp add: prepopulated_def dict_contains_def remove_product_def dict_getitem_def
      dict_delitem_def prod1_def)

subsection \<open>C6: a detail update that fails on the price\<close>

text \<open>
  C6 says that an update with a non-empty name and a price \<open><= 0\<close> fails, leaves the
  name changed and leaves price and description unchanged. The description is assigned
  before the price is checked: when the call also provides a description, the
  description has changed too.
\<close>

theorem update_details_description_counterexample:
  "update_details prod1 (Some ''Laptop X2'') (Some ''Refurbished'') (Some (Finite 0))
     = (Raised (ValueError PriceNotPositive),
        prod1\<lparr>name := ''Laptop X2'', description := ''Refurbished''\<rparr>)
   \<and> description (snd (update_details prod1 (Some ''Laptop X2'') (Some ''Refurbished'')
        (Some (Finite 0)))) \<noteq> description prod1"
  by (simp add: update_details_def and_then_def assign_name_def assign_description_def
      assign_price_def prod1_def)

text \<open>
  C6, amended: an update with a non-empty name and a price \<open><= 0\<close> raises the
  price error (of kind InvalidArgument); the name is the new one, the description is the
  provided one when one is provided and unchanged when none is, and price, quantity and
  identifier are unchanged. Through the manager the call returns False and the stored
  product is left in that state.
\<close>

theorem update_details_not_atomic:
  "n \<noteq> [] \<and> float_le_zero x \<longrightarrow>
     update_details p (Some n) d (Some x)
       = (Raised (ValueError PriceNotPositive),
          p\<lparr>name := n, description := (case d of None \<Rightarrow> description p | Some d' \<Rightarrow> d')\<rparr>)
     \<and> kind_of PriceNotPositive = InvalidArgument
     \<and> price (snd (update_details p (Some n) d (Some x))) = price p
     \<and> quantity (snd (update_details p (Some n) d (Some x))) = quantity p
     \<and> product_id (snd (update_details p (Some n) d (Some x))) = product_id p
     \<and> (dict_get s pid = Some p \<longrightarrow>
          fst (update_product_details s pid (Some n) d (Some x)) = Returned False
          \<and> dict_get (fst (snd (update_product_details s pid (Some n) d (Some x)))) pid
              = Some (p\<lparr>name := n,
                        description := (case d of None \<Rightarrow> description p | Some d' \<Rightarrow> d')\<rparr>))"
  by (auto simp: update_details_def and_then_def assign_name_def assign_description_def
      assign_price_def update_product_details_def get_product_def dict_get_def map_of_setitem
      split: option.splits)

theorem update_details_not_atomic_witness:
  "update_details prod1 (Some ''Laptop X2'') None (Some (Finite (- 5)))
     = (Raised (ValueError PriceNotPositive), prod1\<lparr>name := ''Laptop X2''\<rparr>)
   \<and> fst (update_product_details prepopulated ''LPT001'' (Some ''Laptop X2'') None
        (Some (Finite (- 5)))) = Returned False
   \<and> dict_get (fst (snd (update_product_details prepopulated ''LPT001'' (Some ''Laptop X2'')
        None (Some (Finite (- 5)))))) ''LPT001'' = Some (prod1\<lparr>name := ''Laptop X2''\<rparr>)"
  using update_details_not_atomic
      [of "''Laptop X2''" "Finite (- 5)" prod1 None prepopulated "''LPT001''"]
  by (simp add: prepopulated_def dict_get_def prod1_def)

subsection \<open>C7: changes that are not positive\<close>

text \<open>
  C7 says that a stock update whose amount is not positive fails. \<open>update_stock\<close> takes
  a signed change, negative for a stock-out: a change of zero on a present identifier
  returns True.
\<close>

theorem update_stock_zero_counterexample:
  "dict_get prepopulated ''LPT001'' = Some prod1
   \<and> update_stock prepopulated ''LPT001'' 0
       = (Returned True, prepopulated, [StockMoved 0 ''Laptop X1'' ''LPT001'' False 10])"
  by (simp add: update_stock_def update_stock_try_def get_product_def dict_get_def
      update_quantity_def format_ints_cases int_fits_small prepopulated_def prod1_def)

text \<open>
  C7, amended: for a present identifier and a change that is not positive, where the
  change and the stored quantity have at most 4300 digits, \<open>update_stock\<close> returns False,
  with the store unchanged and the insufficient-stock error (of kind InvalidState)
  printed, exactly when the quantity plus the change is negative; otherwise it returns
  True and the stored quantity is the sum. A change of zero on a product whose quantity
  is not negative returns True and leaves the store unchanged.
\<close>

theorem update_stock_nonpositive:
  "dict_get s pid = Some p \<and> delta \<le> 0 \<and> int_fits delta \<and> int_fits (quantity p) \<longrightarrow>
     (quantity p + delta < 0 \<longrightarrow>
        update_stock s pid delta
          = (Returned False, s,
             [ErrUpdatingStock (ValueError (CannotStockOut \<bar>delta\<bar> (quantity p) (name p)))])
        \<and> kind_of (CannotStockOut \<bar>delta\<bar> (quantity p) (name p)) = InvalidState)
     \<and> (0 \<le> quantity p + delta \<longrightarrow>
        update_stock s pid delta
          = (Returned True, dict_setitem s pid (p\<lparr>quantity := quantity p + delta\<rparr>),
             [StockMoved \<bar>delta\<bar> (name p) pid False (quantity p + delta)])
        \<and> dict_get (fst (snd (update_stock s pid delta))) pid
            = Some (p\<lparr>quantity := quantity p + delta\<rparr>))
     \<and> (delta = 0 \<and> 0 \<le> quantity p \<longrightarrow>
        fst (update_stock s pid delta) = Returned True
        \<and> fst (snd (update_stock s pid delta)) = s)"
proof (intro impI, elim conjE)
  assume g: "dict_get s pid = Some p" and le: "delta \<le> 0"
    and fd: "int_fits delta" and fq: "int_fits (quantity p)"
  have same: "dict_setitem s pid p = s"
    using g by (simp add: dict_get_def setitem_same)
  have neg: "quantity p + delta < 0 \<longrightarrow>
        update_stock s pid delta
          = (Returned False, s,
             [ErrUpdatingStock (ValueError (CannotStockOut \<bar>delta\<bar> (quantity p) (name p)))])
        \<and> kind_of (CannotStockOut \<bar>delta\<bar> (quantity p) (name p)) = InvalidState"
    using g fd fq same
    by (simp add: update_stock_def update_stock_try_def get_product_def
        update_quantity_negative)
  have ok: "0 \<le> quantity p + delta \<longrightarrow>
        update_stock s pid delta
          = (Returned True, dict_setitem s pid (p\<lparr>quantity := quantity p + delta\<rparr>),
             [StockMoved \<bar>delta\<bar> (name p) pid False (quantity p + delta)])
        \<and> dict_get (fst (snd (update_stock s pid delta))) pid
            = Some (p\<lparr>quantity := quantity p + delta\<rparr>)"
  proof
    assume nn: "0 \<le> quantity p + delta"
    with le have "int_fits (quantity p + delta)"
      using int_fits_between [OF fq, of "quantity p + delta"] by simp
    with nn le g fd show "update_stock s pid delta
          = (Returned True, dict_setitem s pid (p\<lparr>quantity := quantity p + delta\<rparr>),
             [StockMoved \<bar>delta\<bar> (name p) pid False (quantity p + delta)])
        \<and> dict_get (fst (snd (update_stock s pid delta))) pid
            = Some (p\<lparr>quantity := quantity p + delta\<rparr>)"
      by (simp add: update_stock_def update_stock_try_def get_product_def
          update_quantity_commits format_ints_cases int_fits_abs int_fits_minus dict_get_def
          map_of_setitem)
  qed
  have zero: "delta = 0 \<and> 0 \<le> quantity p \<longrightarrow>
        fst (update_stock s pid delta) = Returned True
        \<and> fst (snd (update_stock s pid delta)) = s"
    using ok same by auto
  from neg ok zero show
    "(quantity p + delta < 0 \<longrightarrow>
        update_stock s pid delta
          = (Returned False, s,
             [ErrUpdatingStock (ValueError (CannotStockOut \<bar>delta\<bar> (quantity p) (name p)))])
        \<and> kind_of (CannotStockOut \<bar>delta\<bar> (quantity p) (name p)) = InvalidState)
     \<and> (0 \<le> quantity p + delta \<longrightarrow>
        update_stock s pid delta
          = (Returned True, dict_setitem s pid (p\<lparr>quantity := quantity p + delta\<rparr>),
             [StockMoved \<bar>delta\<bar> (name p) pid False (quantity p + delta)])
        \<and> dict_get (fst (snd (update_stock s pid delta))) pid
            = Some (p\<lparr>quantity := quantity p + delta\<rparr>))
     \<and> (delta = 0 \<and> 0 \<le> quantity p \<longrightarrow>
        fst (update_stock s pid delta) = Returned True
        \<and> fst (snd (update_stock s pid delta)) = s)"
    by blast
qed

theorem update_stock_nonpositive_witness:
  "update_stock prepopulated ''LPT001'' (- 15)
     = (Returned False, prepopulated,
        [ErrUpdatingStock (ValueError (CannotStockOut 15 10 ''Laptop X1''))])
   \<and> fst (update_stock prepopulated ''LPT001'' (- 4)) = Returned True
   \<and> dict_get (fst (snd (update_stock prepopulated ''LPT001'' (- 4)))) ''LPT001''
       = Some (prod1\<lparr>quantity := 6\<rparr>)
   \<and> fst (update_stock prepopulated ''LPT001'' 0) = Returned True
   \<and> fst (snd (update_stock prepopulated ''LPT001'' 0)) = prepopulated"
  using update_stock_nonpositive [of prepopulated "''LPT001''" prod1 "- 15"]
    update_stock_nonpositive [of prepopulated "''LPT001''" prod1 "- 4"]
    update_stock_nonpositive [of prepopulated "''LPT001''" prod1 0]
  by (simp add: prepopulated_def dict_get_def prod1_def int_fits_small)

subsection \<open>C8: no exception leaves the manager\<close>

text \<open>
  C8 says that no manager method raises. \<open>list_all_products\<close> formats each stored
  quantity and has no \<open>try\<close>: a product whose quantity has 4301 digits passes the
  constructor and is added, and on that reachable store the listing prints its header
  and raises the \<open>ValueError\<close> of the conversion limit. \<open>update_stock\<close> catches the same
  error around its own report. (Lemma \<open>five_methods_return\<close> is what does hold: the
  other five methods return for every store and every argument.)
\<close>

theorem list_all_products_raises:
  "Product_init ''BIG001'' ''Big'' [] (Finite 1) (10 ^ max_str_digits)
     = Returned \<lparr>product_id = ''BIG001'', name = ''Big'', description = [],
                 price = Finite 1, quantity = 10 ^ max_str_digits\<rparr>
   \<and> reachable [(''BIG001'', \<lparr>product_id = ''BIG001'', name = ''Big'', description = [],
                                 price = Finite 1, quantity = 10 ^ max_str_digits\<rparr>)]
   \<and> list_all_products [(''BIG001'', \<lparr>product_id = ''BIG001'', name = ''Big'',
                                         description = [], price = Finite 1,
                                         quantity = 10 ^ max_str_digits\<rparr>)]
       = (Raised (ValueError IntStrLimit),
          [(''BIG001'', \<lparr>product_id = ''BIG001'', name = ''Big'', description = [],
                          price = Finite 1, quantity = 10 ^ max_str_digits\<rparr>)],
          [ListHeader])"
proof -
  let ?p = "\<lparr>product_id = ''BIG001'', name = ''Big'', description = [],
             price = Finite 1, quantity = 10 ^ max_str_digits\<rparr>"
  have init: "Product_init ''BIG001'' ''Big'' [] (Finite 1) (10 ^ max_str_digits) = Returned ?p"
    by (simp add: Product_init_def)
  have add: "add_product [] ?p = (Returned True, [(''BIG001'', ?p)], [AddedOk ''Big''])"
    by (simp add: add_product_def dict_contains_def)
  have "reachable (fst (snd (add_product [] ?p)))"
    by (rule reachable.added [OF reachable.initial constructed.fresh [OF init]])
  then have reach: "reachable [(''BIG001'', ?p)]"
    by (simp add: add)
  have "print_entries [(''BIG001'', ?p)] = (Raised (ValueError IntStrLimit), [])"
    using not_int_fits_limit by (simp add: format_int_def)
  then have "list_all_products [(''BIG001'', ?p)]
               = (Raised (ValueError IntStrLimit), [(''BIG001'', ?p)], [ListHeader])"
    by (simp add: list_all_products_def del: print_entries.simps)
  with init reach show ?thesis by simp
qed

subsection \<open>C9: listing is a pure read\<close>

text \<open>
  C9: \<open>list_all_products\<close> leaves the dictionary exactly as it was, and a second call
  gives the same result as the first, printed lines included. When every stored quantity
  fits the conversion limit, what is printed is the notice for an empty store, otherwise
  one entry for each stored product, in the dictionary's order, between header and
  footer.
\<close>

theorem list_all_products_pure_read:
  "fst (snd (list_all_products s)) = s
   \<and> list_all_products (fst (snd (list_all_products s))) = list_all_products s
   \<and> (list_all (\<lambda>e. int_fits (quantity (snd e))) s \<longrightarrow>
        list_all_products s
          = (Returned (), s,
             if s = [] then [InventoryEmpty]
             else [ListHeader] @
                  map (\<lambda>e. ListEntry (product_id (snd e)) (name (snd e)) (price (snd e))
                             (quantity (snd e))) s @ [ListFooter]))"
proof (intro conjI impI)
  show "fst (snd (list_all_products s)) = s"
    by (rule list_all_products_same)
  show "list_all_products (fst (snd (list_all_products s))) = list_all_products s"
    by (simp only: list_all_products_same)
  assume "list_all (\<lambda>e. int_fits (quantity (snd e))) s"
  then show "list_all_products s
          = (Returned (), s,
             if s = [] then [InventoryEmpty]
             else [ListHeader] @
                  map (\<lambda>e. ListEntry (product_id (snd e)) (name (snd e)) (price (snd e))
                             (quantity (snd e))) s @ [ListFooter])"
    by (simp add: print_entries_fits list_all_products_def)
qed

theorem list_all_products_pure_read_witness:
  "fst (snd (list_all_products prepopulated)) = prepopulated
   \<and> list_all_products (fst (snd (list_all_products prepopulated)))
       = list_all_products prepopulated
   \<and> list_all_products prepopulated
       = (Returned (), prepopulated,
          [ListHeader, ListEntry ''LPT001'' ''Laptop X1'' (Finite 1200.99) 10,
           ListEntry ''MSE002'' ''Wireless Mouse'' (Finite 25.50) 50, ListFooter])"
  using list_all_products_pure_read [of prepopulated]
  by (simp add: prepopulated_def prod1_def prod2_def int_fits_small)

subsection \<open>C10: a detail update with no field\<close>

text \<open>
  C10: for a present identifier, \<open>update_product_details\<close> with no name, no description
  and no price returns True and leaves the dictionary, and so the stored product's name,
  description, price and quantity, exactly as it was.
\<close>

theorem update_product_details_no_fields:
  "dict_get s pid = Some p \<longrightarrow>
     update_product_details s pid None None None = (Returned True, s, [DetailsUpdatedOk pid])
     \<and> dict_get (fst (snd (update_product_details s pid None None None))) pid = Some p"
  by (auto simp: update_product_details_def get_product_def dict_get_def update_details_def
      and_then_def assign_name_def assign_description_def assign_price_def setitem_same)

theorem update_product_details_no_fields_witness:
  "update_product_details prepopulated ''MSE002'' None None None
     = (Returned True, prepopulated, [DetailsUpdatedOk ''MSE002''])
   \<and> dict_get (fst (snd (update_product_details prepopulated ''MSE002'' None None None)))
        ''MSE002'' = Some prod2"
  using update_product_details_no_fields [of prepopulated "''MSE002''" prod2]
  by (simp add: prepopulated_def dict_get_def)

end
